theory Spec2Isabelle
  imports Main
begin

section \<open>JavaScript values read by the request layer\<close>

text \<open>
  The hooks of \<^verbatim>\<open>src/composables/useRequest.ts\<close> receive their context as \<^verbatim>\<open>any\<close>:
  the decoded response body is whatever JSON the backend sent, or \<^verbatim>\<open>null\<close> when no body
  was decoded. A body is therefore a JavaScript value; an object is the list of its own
  properties in insertion order (keys distinct, as \<^verbatim>\<open>JSON.parse\<close> builds it). Numbers
  are integers here: the only thing the code asks of a number is whether it is zero.
\<close>

datatype jsval =
    JUndefined
  | JNull
  | JBool bool
  | JNum int
  | JStr string
  | JArr "jsval list"
  | JObj "(string \<times> jsval) list"

text \<open>Reading a property of \<^verbatim>\<open>undefined\<close> or \<^verbatim>\<open>null\<close> throws a TypeError.\<close>

datatype js_error = TypeError

fun truthy :: "jsval \<Rightarrow> bool" where
  "truthy JUndefined = False"
| "truthy JNull = False"
| "truthy (JBool b) = b"
| "truthy (JNum n) = (n \<noteq> 0)"
| "truthy (JStr s) = (s \<noteq> [])"
| "truthy (JArr xs) = True"
| "truthy (JObj kvs) = True"

fun nullish :: "jsval \<Rightarrow> bool" where
  "nullish JUndefined = True"
| "nullish JNull = True"
| "nullish v = False"

text \<open>
  \<^verbatim>\<open>v.k\<close> for the data property names this module reads (\<^verbatim>\<open>detail\<close>, \<^verbatim>\<open>message\<close>,
  \<^verbatim>\<open>msg\<close>, \<^verbatim>\<open>loc\<close>, \<^verbatim>\<open>id\<close>): none of them is inherited from the prototype of an
  object, array, string, number or boolean, so only an object's own property can answer.
  A property the object does not have reads as \<^verbatim>\<open>undefined\<close>.
\<close>

definition own :: "(string \<times> jsval) list \<Rightarrow> string \<Rightarrow> jsval" where
  "own kvs k = (case map_of kvs k of None \<Rightarrow> JUndefined | Some v \<Rightarrow> v)"

fun js_prop :: "jsval \<Rightarrow> string \<Rightarrow> js_error + jsval" where
  "js_prop JUndefined k = Inl TypeError"
| "js_prop JNull k = Inl TypeError"
| "js_prop (JObj kvs) k = Inr (own kvs k)"
| "js_prop v k = Inr JUndefined"

text \<open>\<^verbatim>\<open>v[0]\<close>: the first element of an array, the first character of a string.\<close>

fun index0 :: "jsval \<Rightarrow> js_error + jsval" where
  "index0 JUndefined = Inl TypeError"
| "index0 JNull = Inl TypeError"
| "index0 (JArr []) = Inr JUndefined"
| "index0 (JArr (x # xs)) = Inr x"
| "index0 (JStr []) = Inr JUndefined"
| "index0 (JStr (c # cs)) = Inr (JStr [c])"
| "index0 (JObj kvs) = Inr (own kvs ''0'')"
| "index0 v = Inr JUndefined"

text \<open>Sequencing of evaluations that may throw.\<close>

definition js_bind :: "js_error + 'a \<Rightarrow> ('a \<Rightarrow> js_error + 'b) \<Rightarrow> js_error + 'b" where
  "js_bind m f = (case m of Inl e \<Rightarrow> Inl e | Inr v \<Rightarrow> f v)"

text \<open>
  \<^verbatim>\<open>a || b\<close> and \<^verbatim>\<open>a && b\<close>: the right operand counts only when the left one does
  not decide, so an error of the right operand is dropped when the left one decides.
\<close>

definition or_js :: "js_error + jsval \<Rightarrow> js_error + jsval \<Rightarrow> js_error + jsval" where
  "or_js a b = (case a of Inl e \<Rightarrow> Inl e | Inr v \<Rightarrow> if truthy v then Inr v else b)"

definition and_js :: "js_error + jsval \<Rightarrow> js_error + jsval \<Rightarrow> js_error + jsval" where
  "and_js a b = (case a of Inl e \<Rightarrow> Inl e | Inr v \<Rightarrow> if truthy v then b else Inr v)"

text \<open>
  \<^verbatim>\<open>v?.rest\<close>: on \<^verbatim>\<open>undefined\<close> or \<^verbatim>\<open>null\<close> the whole rest of the chain is skipped
  and the value is \<^verbatim>\<open>undefined\<close>.
\<close>

definition opt_chain :: "jsval \<Rightarrow> (jsval \<Rightarrow> js_error + jsval) \<Rightarrow> js_error + jsval" where
  "opt_chain v rest = (if nullish v then Inr JUndefined else rest v)"

section \<open>The request layer's data\<close>

text \<open>
  \<^verbatim>\<open>interface ErrorDetails\<close>. A key the object does not have is \<open>None\<close>; a key that is
  there with the value \<^verbatim>\<open>undefined\<close> is \<open>Some JUndefined\<close>. The object literals of
  \<^verbatim>\<open>onFetchError\<close> are cast to the interface, so \<^verbatim>\<open>errorCode\<close> can be missing from
  a literal and \<^verbatim>\<open>message\<close> holds whatever the extraction returned. \<^verbatim>\<open>message\<close> and
  \<^verbatim>\<open>type\<close> are keys of every literal.
\<close>

record ErrorDetails =
  errorCode :: "int option"
  message :: jsval
  type :: string
  location :: "jsval option"
  extra :: "string option"
  raw :: "jsval option"
  timestamp :: "jsval option"
  endpoint :: "string option"

text \<open>The fields of the fetch \<^verbatim>\<open>Response\<close> that the hook reads.\<close>

record Response =
  status :: int
  url :: string

text \<open>
  \<^verbatim>\<open>ctx.error\<close> arrives as the error the fetch raised and leaves as the normalized
  details.
\<close>

datatype ctx_error = Thrown string | Details ErrorDetails

record ctx =
  data :: jsval
  error :: ctx_error
  response :: "Response option"

section \<open>Message extraction\<close>

definition messageResponse :: "ctx \<Rightarrow> js_error + jsval" where
  "messageResponse c =
     (case response c of
        None \<Rightarrow> Inr JUndefined
      | Some r \<Rightarrow>
          if truthy (data c) then
            js_bind (and_js (Inr (data c)) (js_prop (data c) ''detail'')) (\<lambda>cond.
              if truthy cond then
                js_bind (js_prop (data c) ''detail'') (\<lambda>detail.
                  or_js (opt_chain detail (\<lambda>d. js_bind (index0 d) (\<lambda>e.
                           opt_chain e (\<lambda>e. js_prop e ''msg''))))
                 (or_js (js_prop detail ''message'')
                 (or_js (js_prop detail ''msg'')
                        (Inr detail))))
              else
                or_js (js_prop (data c) ''message'')
               (or_js (js_prop (data c) ''msg'')
                      (Inr (data c))))
          else Inr JUndefined)"

section \<open>The post-error hook\<close>

text \<open>An object literal with the two keys every branch writes.\<close>

definition literal :: "jsval \<Rightarrow> string \<Rightarrow> ErrorDetails" where
  "literal m t =
     \<lparr>errorCode = None, message = m, type = t, location = None, extra = None,
      raw = None, timestamp = None, endpoint = None\<rparr>"

text \<open>\<^verbatim>\<open>messageResponse(ctx) || 'fallback'\<close>\<close>

definition messageOr :: "ctx \<Rightarrow> string \<Rightarrow> js_error + jsval" where
  "messageOr c fallback = or_js (messageResponse c) (Inr (JStr fallback))"

text \<open>
  The \<^verbatim>\<open>if\<close>/\<^verbatim>\<open>else if\<close> chain on the status, which builds the literal. In a literal
  the properties are evaluated in the order written: the message before the location.
\<close>

definition classify :: "ctx \<Rightarrow> Response \<Rightarrow> js_error + ErrorDetails" where
  "classify c r =
     (if status r = 422 \<or> status r = 400 then
        js_bind (messageResponse c) (\<lambda>m.
        js_bind (or_js (js_bind (js_prop (data c) ''detail'') (\<lambda>detail.
                          opt_chain detail (\<lambda>d. js_bind (index0 d) (\<lambda>e.
                          opt_chain e (\<lambda>e. js_prop e ''loc'')))))
                       (Inr JNull)) (\<lambda>l.
        Inr ((literal m ''fastapiError'')\<lparr>location := Some l\<rparr>)))
      else if status r = 404 then
        js_bind (messageOr c ''Entity Not Found'') (\<lambda>m.
        js_bind (opt_chain (data c) (\<lambda>d. js_bind (js_prop d ''detail'') (\<lambda>detail.
                   opt_chain detail (\<lambda>d. js_prop d ''id'')))) (\<lambda>l.
        Inr ((literal m ''notFound'')\<lparr>location := Some l\<rparr>)))
      else if status r = 502 then
        js_bind (messageOr c ''Bad Gateway'') (\<lambda>m. Inr (literal m ''serverError''))
      else if status r = 503 then
        js_bind (messageOr c ''Service is not available right now.'') (\<lambda>m.
        Inr (literal m ''serverError''))
      else if status r = 504 then
        js_bind (messageOr c ''Gateway Timeout Error'') (\<lambda>m.
        Inr (literal m ''serverError''))
      else if status r = 500 then
        js_bind (messageOr c
                   ''Internal Server Error. The server unable to complete your request'')
          (\<lambda>m. Inr ((literal m ''serverError'')\<lparr>errorCode := Some 500\<rparr>))
      else
        js_bind (messageOr c ''Miscellaneous Error'') (\<lambda>m. Inr (literal m ''others'')))"

text \<open>
  \<^verbatim>\<open>onFetchError(ctx)\<close>. The three \<^verbatim>\<open>console.error\<close> calls only log. Without a
  response the hook returns at once; otherwise the literal of the branch taken gets the
  status, the body and the URL of the response. An exception leaves the hook with no
  context returned.
\<close>

definition onFetchError :: "ctx \<Rightarrow> js_error + ctx" where
  "onFetchError c =
     (case response c of
        None \<Rightarrow>
          Inr (c\<lparr>error := Details
                 ((literal (JStr ''Failed to load response data | Unknown Error'') ''unknown'')
                    \<lparr>errorCode := Some 500\<rparr>)\<rparr>)
      | Some r \<Rightarrow>
          js_bind (classify c r) (\<lambda>e.
            Inr (c\<lparr>error := Details
                   (e\<lparr>errorCode := Some (status r), raw := Some (data c),
                      endpoint := Some (url r)\<rparr>)\<rparr>)))"

text \<open>The details a run of the hook leaves in \<^verbatim>\<open>ctx.error\<close>, if it returned.\<close>

fun detailsOf :: "js_error + ctx \<Rightarrow> ErrorDetails option" where
  "detailsOf (Inl e) = None"
| "detailsOf (Inr c) = (case error c of Thrown s \<Rightarrow> None | Details d \<Rightarrow> Some d)"

section \<open>The pre-request hook\<close>

text \<open>
  \<^verbatim>\<open>import.meta.env\<close>: the mode is a string, each token a string or \<^verbatim>\<open>undefined\<close>.
\<close>

record env =
  MODE :: string
  VITE_BASF_GITLAB_TOKEN :: "string option"
  VITE_BASF_FEDERATION_ACCESS_TOKEN :: "string option"

text \<open>
  The fetch options the hook is handed: \<^verbatim>\<open>headers\<close> is a plain object of header
  values or \<^verbatim>\<open>undefined\<close>; the hook touches no other option.
\<close>

record fetch_options =
  headers :: "(string \<rightharpoonup> string) option"

text \<open>\<^verbatim>\<open>Object.assign(headers || {}, {[k]: v})\<close>\<close>

definition assign :: "(string \<rightharpoonup> string) option \<Rightarrow> string \<Rightarrow> string \<Rightarrow> (string \<rightharpoonup> string)" where
  "assign h k v = (case h of None \<Rightarrow> Map.empty | Some m \<Rightarrow> m)(k \<mapsto> v)"

text \<open>One \<^verbatim>\<open>if (env.TOKEN)\<close> block: an unset or empty token is falsy.\<close>

definition addHeader ::
  "string option \<Rightarrow> string \<Rightarrow> string \<Rightarrow> 'a fetch_options_scheme \<Rightarrow> 'a fetch_options_scheme" where
  "addHeader token k prefix opts =
     (case token of
        None \<Rightarrow> opts
      | Some t \<Rightarrow>
          if t = [] then opts
          else opts\<lparr>headers := Some (assign (headers opts) k (prefix @ t))\<rparr>)"

definition beforeFetch :: "env \<Rightarrow> 'a fetch_options_scheme \<Rightarrow> 'a fetch_options_scheme" where
  "beforeFetch e opts =
     (if MODE e = ''development'' then
        addHeader (VITE_BASF_FEDERATION_ACCESS_TOKEN e) ''Authorization'' ''Bearer ''
          (addHeader (VITE_BASF_GITLAB_TOKEN e) ''X-Gitlab-Token'' [] opts)
      else opts)"

section \<open>The GET helper's URL\<close>

text \<open>
  \<^verbatim>\<open>isObject\<close> of \<^verbatim>\<open>@vueuse/core\<close> compares \<^verbatim>\<open>toString.call(val)\<close> with
  \<^verbatim>\<open>'[object Object]'\<close>: true of a plain object only, not of an array or \<^verbatim>\<open>null\<close>.
\<close>

fun isObject :: "jsval \<Rightarrow> bool" where
  "isObject (JObj kvs) = True"
| "isObject v = False"

text \<open>
  What a template literal makes of a value (the language's \<^verbatim>\<open>ToString\<close>): a string is
  itself, a number its decimal digits, an array its elements joined by commas with
  \<^verbatim>\<open>undefined\<close> and \<^verbatim>\<open>null\<close> elements left empty.
\<close>

fun digits :: "nat \<Rightarrow> string" where
  "digits n =
     (if n < 10 then [''0123456789'' ! n]
      else digits (n div 10) @ [''0123456789'' ! (n mod 10)])"

fun join_comma :: "string list \<Rightarrow> string" where
  "join_comma [] = []"
| "join_comma [x] = x"
| "join_comma (x # y # ys) = x @ '','' @ join_comma (y # ys)"

fun toStr :: "jsval \<Rightarrow> string" where
  "toStr JUndefined = ''undefined''"
| "toStr JNull = ''null''"
| "toStr (JBool b) = (if b then ''true'' else ''false'')"
| "toStr (JNum n) = (if n < 0 then ''-'' @ digits (nat (- n)) else digits (nat n))"
| "toStr (JStr s) = s"
| "toStr (JArr xs) = join_comma (map (\<lambda>v. if nullish v then [] else toStr v) xs)"
| "toStr (JObj kvs) = ''[object Object]''"

text \<open>
  \<^verbatim>\<open>isObject(_query) ? stringifyQuery(_query) : _query || ''\<close>. The serializer
  \<^verbatim>\<open>stringifyQuery\<close> belongs to \<^verbatim>\<open>vue-router\<close>; it is a parameter here.
\<close>

fun queryString :: "((string \<times> jsval) list \<Rightarrow> string) \<Rightarrow> jsval \<Rightarrow> jsval" where
  "queryString stringifyQuery (JObj kvs) = JStr (stringifyQuery kvs)"
| "queryString stringifyQuery q = (if truthy q then q else JStr [])"

text \<open>
  The computed \<^verbatim>\<open>_url\<close> of \<^verbatim>\<open>useGet\<close>, from the unwrapped URL and query; an omitted
  query is \<^verbatim>\<open>undefined\<close>.
\<close>

definition useGet_url :: "((string \<times> jsval) list \<Rightarrow> string) \<Rightarrow> string \<Rightarrow> jsval \<Rightarrow> string" where
  "useGet_url stringifyQuery u q =
     (let qs = queryString stringifyQuery q
      in u @ (if truthy qs then ''?'' else []) @ toStr qs)"

text \<open>
  A serializer to run the helper with: \<^verbatim>\<open>key=value\<close> pairs joined by \<^verbatim>\<open>&\<close>, which is
  what \<^verbatim>\<open>stringifyQuery\<close> gives for string and number values whose characters need no
  escaping.
\<close>

fun plainQuery :: "(string \<times> jsval) list \<Rightarrow> string" where
  "plainQuery [] = []"
| "plainQuery [(k, v)] = k @ ''='' @ toStr v"
| "plainQuery ((k, v) # kv # kvs) = k @ ''='' @ toStr v @ ''&'' @ plainQuery (kv # kvs)"

section \<open>Toggleable text state\<close>

text \<open>
  \<^verbatim>\<open>src/composables/useN3EG.ts\<close>: the composable creates the ref \<^verbatim>\<open>text\<close>; \<^verbatim>\<open>edit\<close> and
  \<^verbatim>\<open>reset\<close> assign to it.
\<close>

record N3EG =
  text_value :: string

definition useN3EG :: N3EG where
  "useN3EG = \<lparr>text_value = ''N3EG''\<rparr>"

definition edit :: "string \<Rightarrow> N3EG \<Rightarrow> N3EG" where
  "edit v s = s\<lparr>text_value := v\<rparr>"

definition reset :: "N3EG \<Rightarrow> N3EG" where
  "reset s = s\<lparr>text_value := ''N3EG''\<rparr>"

section \<open>The hooks return: which evaluations can throw\<close>

lemma js_bind_simps:
  "js_bind (Inr v) f = f v"
  "js_bind (Inl e) f = Inl e"
  by (simp_all add: js_bind_def)

lemma or_js_simps:
  "or_js (Inr v) b = (if truthy v then Inr v else b)"
  "or_js (Inl e) b = Inl e"
  by (simp_all add: or_js_def)

lemma and_js_simps:
  "and_js (Inr v) b = (if truthy v then b else Inr v)"
  "and_js (Inl e) b = Inl e"
  by (simp_all add: and_js_def)

lemma truthy_not_nullish: "truthy v \<Longrightarrow> \<not> nullish v"
  by (cases v) simp_all

lemma js_prop_returns: "\<not> nullish v \<Longrightarrow> \<exists>w. js_prop v k = Inr w"
  by (cases v) simp_all

lemma index0_returns: "\<not> nullish v \<Longrightarrow> \<exists>w. index0 v = Inr w"
proof (cases v)
  case (JStr s)
  then show ?thesis by (cases s) simp_all
next
  case (JArr xs)
  then show ?thesis by (cases xs) simp_all
qed simp_all

text \<open>The chain \<^verbatim>\<open>v?.[0]?.k\<close> never throws.\<close>

lemma chain0_returns:
  "\<exists>w. opt_chain v (\<lambda>d. js_bind (index0 d) (\<lambda>e. opt_chain e (\<lambda>e. js_prop e k))) = Inr w"
proof (cases "nullish v")
  case True
  then show ?thesis by (simp add: opt_chain_def)
next
  case False
  then obtain x where x: "index0 v = Inr x" using index0_returns by blast
  show ?thesis
  proof (cases "nullish x")
    case True
    with False x show ?thesis by (simp add: opt_chain_def js_bind_simps)
  next
    case nx: False
    then obtain w where "js_prop x k = Inr w" using js_prop_returns by blast
    with False x nx show ?thesis by (simp add: opt_chain_def js_bind_simps)
  qed
qed

lemma messageResponse_no_response:
  "response c = None \<Longrightarrow> messageResponse c = Inr JUndefined"
  by (simp add: messageResponse_def)

lemma messageResponse_falsy:
  "\<not> truthy (data c) \<Longrightarrow> messageResponse c = Inr JUndefined"
  by (simp add: messageResponse_def split: option.splits)

lemma messageResponse_truthy:
  assumes r: "response c = Some r" and t: "truthy (data c)"
  shows "\<exists>m. messageResponse c = Inr m \<and> truthy m"
proof -
  from t have nn: "\<not> nullish (data c)" by (rule truthy_not_nullish)
  then obtain detail where d: "js_prop (data c) ''detail'' = Inr detail"
    using js_prop_returns by blast
  show ?thesis
  proof (cases "truthy detail")
    case True
    then have "\<not> nullish detail" by (rule truthy_not_nullish)
    then obtain a b where a: "js_prop detail ''message'' = Inr a"
      and b: "js_prop detail ''msg'' = Inr b"
      using js_prop_returns by blast
    obtain w where w: "opt_chain detail (\<lambda>d. js_bind (index0 d) (\<lambda>e.
        opt_chain e (\<lambda>e. js_prop e ''msg''))) = Inr w"
      using chain0_returns by blast
    from r t d True a b w show ?thesis
      by (simp add: messageResponse_def js_bind_simps or_js_simps and_js_simps)
  next
    case False
    from nn obtain a b where a: "js_prop (data c) ''message'' = Inr a"
      and b: "js_prop (data c) ''msg'' = Inr b"
      using js_prop_returns by blast
    from r t d False a b show ?thesis
      by (simp add: messageResponse_def js_bind_simps or_js_simps and_js_simps)
  qed
qed


lemma fastapi_location_returns:
  assumes "\<not> nullish d"
  shows "\<exists>l. or_js (js_bind (js_prop d ''detail'') (\<lambda>detail.
             opt_chain detail (\<lambda>d. js_bind (index0 d) (\<lambda>e.
             opt_chain e (\<lambda>e. js_prop e ''loc''))))) (Inr JNull) = Inr l"
proof -
  from assms obtain detail where d: "js_prop d ''detail'' = Inr detail"
    using js_prop_returns by blast
  obtain w where "opt_chain detail (\<lambda>d. js_bind (index0 d) (\<lambda>e.
        opt_chain e (\<lambda>e. js_prop e ''loc''))) = Inr w"
    using chain0_returns by blast
  with d show ?thesis by (simp add: js_bind_simps or_js_simps)
qed

lemma notFound_location_returns:
  "\<exists>l. opt_chain d (\<lambda>d. js_bind (js_prop d ''detail'') (\<lambda>detail.
          opt_chain detail (\<lambda>d. js_prop d ''id''))) = Inr l"
proof (cases "nullish d")
  case True
  then show ?thesis by (simp add: opt_chain_def)
next
  case False
  then obtain detail where d: "js_prop d ''detail'' = Inr detail"
    using js_prop_returns by blast
  show ?thesis
  proof (cases "nullish detail")
    case True
    with False d show ?thesis by (simp add: opt_chain_def js_bind_simps)
  next
    case nd: False
    then obtain w where "js_prop detail ''id'' = Inr w" using js_prop_returns by blast
    with False d nd show ?thesis by (simp add: opt_chain_def js_bind_simps)
  qed
qed

lemma messageResponse_returns: "\<exists>m. messageResponse c = Inr m"
proof (cases "response c")
  case None
  then show ?thesis by (simp add: messageResponse_no_response)
next
  case (Some r)
  show ?thesis
  proof (cases "truthy (data c)")
    case True
    with Some show ?thesis using messageResponse_truthy by blast
  next
    case False
    then show ?thesis by (simp add: messageResponse_falsy)
  qed
qed

lemma messageOr_returns: "fallback \<noteq> [] \<Longrightarrow> \<exists>m. messageOr c fallback = Inr m \<and> truthy m"
proof -
  assume f: "fallback \<noteq> []"
  obtain m where m: "messageResponse c = Inr m" using messageResponse_returns by blast
  with f show ?thesis by (simp add: messageOr_def or_js_simps)
qed

lemma classify_fastapi:
  assumes s: "status r = 422 \<or> status r = 400" and nn: "\<not> nullish (data c)"
  shows "\<exists>m l. messageResponse c = Inr m \<and>
           classify c r = Inr ((literal m ''fastapiError'')\<lparr>location := Some l\<rparr>)"
proof -
  obtain m where m: "messageResponse c = Inr m" using messageResponse_returns by blast
  from nn obtain l where "or_js (js_bind (js_prop (data c) ''detail'') (\<lambda>detail.
             opt_chain detail (\<lambda>d. js_bind (index0 d) (\<lambda>e.
             opt_chain e (\<lambda>e. js_prop e ''loc''))))) (Inr JNull) = Inr l"
    using fastapi_location_returns by blast
  with s m have "classify c r = Inr ((literal m ''fastapiError'')\<lparr>location := Some l\<rparr>)"
    by (simp add: classify_def js_bind_simps)
  with m show ?thesis by blast
qed

lemma classify_fastapi_throws:
  assumes s: "status r = 422 \<or> status r = 400" and n: "nullish (data c)"
  shows "classify c r = Inl TypeError"
proof -
  from n have "\<not> truthy (data c)" using truthy_not_nullish by blast
  then have m: "messageResponse c = Inr JUndefined" by (rule messageResponse_falsy)
  from n have "js_prop (data c) ''detail'' = Inl TypeError" by (cases "data c") simp_all
  with s m show ?thesis by (simp add: classify_def js_bind_simps or_js_simps)
qed

lemma classify_other:
  assumes s: "status r \<noteq> 422" "status r \<noteq> 400"
  shows "\<exists>d. classify c r = Inr d \<and> truthy (message d)"
proof -
  obtain l where l: "opt_chain (data c) (\<lambda>d. js_bind (js_prop d ''detail'') (\<lambda>detail.
          opt_chain detail (\<lambda>d. js_prop d ''id''))) = Inr l"
    using notFound_location_returns by blast
  obtain m1 where m1: "messageOr c ''Entity Not Found'' = Inr m1" "truthy m1"
    using messageOr_returns [of "''Entity Not Found''" c] by auto
  obtain m2 where m2: "messageOr c ''Bad Gateway'' = Inr m2" "truthy m2"
    using messageOr_returns [of "''Bad Gateway''" c] by auto
  obtain m3 where m3: "messageOr c ''Service is not available right now.'' = Inr m3" "truthy m3"
    using messageOr_returns [of "''Service is not available right now.''" c] by auto
  obtain m4 where m4: "messageOr c ''Gateway Timeout Error'' = Inr m4" "truthy m4"
    using messageOr_returns [of "''Gateway Timeout Error''" c] by auto
  obtain m5 where m5: "messageOr c
      ''Internal Server Error. The server unable to complete your request'' = Inr m5" "truthy m5"
    using messageOr_returns
      [of "''Internal Server Error. The server unable to complete your request''" c] by auto
  obtain m6 where m6: "messageOr c ''Miscellaneous Error'' = Inr m6" "truthy m6"
    using messageOr_returns [of "''Miscellaneous Error''" c] by auto
  from s l m1 m2 m3 m4 m5 m6 show ?thesis
    by (simp add: classify_def js_bind_simps literal_def)
qed

lemma onFetchError_response:
  assumes "response c = Some r" and "classify c r = Inr d"
  shows "detailsOf (onFetchError c) =
           Some (d\<lparr>errorCode := Some (status r), raw := Some (data c),
                   endpoint := Some (url r)\<rparr>)"
  using assms by (simp add: onFetchError_def js_bind_simps)

lemma onFetchError_throws:
  assumes "response c = Some r" and "classify c r = Inl e"
  shows "onFetchError c = Inl e"
  using assms by (simp add: onFetchError_def js_bind_simps)



text \<open>
  What the extraction returns for a truthy body with no truthy \<^verbatim>\<open>detail\<close>, and the
  literal of the last branch of the chain.
\<close>

lemma messageResponse_object_fallback:
  assumes "response c = Some r" and "data c = JObj kvs" and "\<not> truthy (own kvs ''detail'')"
  shows "messageResponse c =
    Inr (if truthy (own kvs ''message'') then own kvs ''message''
         else if truthy (own kvs ''msg'') then own kvs ''msg''
         else JObj kvs)"
  using assms by (simp add: messageResponse_def js_bind_simps or_js_simps and_js_simps)

lemma messageResponse_plain_fallback:
  assumes "response c = Some r" and "truthy (data c)" and "\<not> isObject (data c)"
  shows "messageResponse c = Inr (data c)"
  using assms
  by (cases "data c") (simp_all add: messageResponse_def js_bind_simps or_js_simps and_js_simps)

lemma classify_others:
  assumes "status r \<noteq> 422" "status r \<noteq> 400" "status r \<noteq> 404" "status r \<noteq> 502"
    "status r \<noteq> 503" "status r \<noteq> 504" "status r \<noteq> 500"
    and "messageResponse c = Inr m"
  shows "classify c r =
    Inr (literal (if truthy m then m else JStr ''Miscellaneous Error'') ''others'')"
  using assms by (simp add: classify_def messageOr_def js_bind_simps or_js_simps)

section \<open>Evaluating the hook\<close>

text \<open>The definitions a run of the post-error hook unfolds.\<close>

lemmas run_hook =
  onFetchError_def classify_def messageOr_def messageResponse_def literal_def
  js_bind_def or_js_def and_js_def opt_chain_def own_def

section \<open>Properties of the post-error hook\<close>

text \<open>
  C1. The specification asks for \<^verbatim>\<open>errorCode\<close> and \<^verbatim>\<open>endpoint\<close> on every branch,
  the no-response branch included. The hook returns early there, before the lines that
  write the status, the body and the URL. What holds: when the failed request has a
  response object (and, for status 400 or 422, a body that is not \<^verbatim>\<open>null\<close> or
  \<^verbatim>\<open>undefined\<close>), the hook returns details whose \<^verbatim>\<open>errorCode\<close> is the response
  status and whose \<^verbatim>\<open>endpoint\<close> is the response URL, whichever branch classified it;
  when there is no response object, \<^verbatim>\<open>errorCode\<close> is 500 and no \<^verbatim>\<open>endpoint\<close> key is
  set.
\<close>

theorem errorCode_endpoint_populated:
  "(response c = None \<longrightarrow>
      map_option errorCode (detailsOf (onFetchError c)) = Some (Some 500) \<and>
      map_option endpoint (detailsOf (onFetchError c)) = Some None) \<and>
   (response c = Some r \<and> (status r = 422 \<or> status r = 400 \<longrightarrow> \<not> nullish (data c)) \<longrightarrow>
      map_option errorCode (detailsOf (onFetchError c)) = Some (Some (status r)) \<and>
      map_option endpoint (detailsOf (onFetchError c)) = Some (Some (url r)))"
proof (intro conjI impI)
  assume "response c = None"
  then show "map_option errorCode (detailsOf (onFetchError c)) = Some (Some 500)"
    and "map_option endpoint (detailsOf (onFetchError c)) = Some None"
    by (simp_all add: onFetchError_def literal_def)
next
  assume a: "response c = Some r \<and> (status r = 422 \<or> status r = 400 \<longrightarrow> \<not> nullish (data c))"
  have "\<exists>d. classify c r = Inr d"
  proof (cases "status r = 422 \<or> status r = 400")
    case True
    with a have "\<not> nullish (data c)" by blast
    with True show ?thesis using classify_fastapi by blast
  next
    case False
    then show ?thesis using classify_other [of r c] by blast
  qed
  then obtain d where d: "classify c r = Inr d" by blast
  from a have r: "response c = Some r" by blast
  show "map_option errorCode (detailsOf (onFetchError c)) = Some (Some (status r))"
    by (simp add: onFetchError_response [OF r d])
  show "map_option endpoint (detailsOf (onFetchError c)) = Some (Some (url r))"
    by (simp add: onFetchError_response [OF r d])
qed

text \<open>
  A request that never got a response: a network failure. The details have no
  \<^verbatim>\<open>endpoint\<close>, and the 500 is not a status any response carried.
\<close>

theorem no_response_has_no_endpoint:
  "map_option errorCode (detailsOf (onFetchError
      \<lparr>data = JNull, error = Thrown ''Failed to fetch'', response = None\<rparr>)) = Some (Some 500) \<and>
   map_option endpoint (detailsOf (onFetchError
      \<lparr>data = JNull, error = Thrown ''Failed to fetch'', response = None\<rparr>)) = Some None"
  by (simp add: run_hook)

text \<open>
  Both parts at concrete contexts: no response, and a 400 response with body \<^verbatim>\<open>{}\<close>.
\<close>

theorem errorCode_endpoint_populated_witness:
  "response \<lparr>data = JNull, error = Thrown ''Failed to fetch'', response = None\<rparr> = None \<and>
   map_option endpoint (detailsOf (onFetchError
      \<lparr>data = JNull, error = Thrown ''Failed to fetch'', response = None\<rparr>)) = Some None \<and>
   response \<lparr>data = JObj [], error = Thrown ''Bad Request'',
       response = Some \<lparr>status = 400, url = ''http://localhost:5000/items''\<rparr>\<rparr> =
     Some \<lparr>status = 400, url = ''http://localhost:5000/items''\<rparr> \<and>
   \<not> nullish (JObj []) \<and>
   map_option errorCode (detailsOf (onFetchError
      \<lparr>data = JObj [], error = Thrown ''Bad Request'',
       response = Some \<lparr>status = 400, url = ''http://localhost:5000/items''\<rparr>\<rparr>)) =
     Some (Some 400) \<and>
   map_option endpoint (detailsOf (onFetchError
      \<lparr>data = JObj [], error = Thrown ''Bad Request'',
       response = Some \<lparr>status = 400, url = ''http://localhost:5000/items''\<rparr>\<rparr>)) =
     Some (Some ''http://localhost:5000/items'')"
  using errorCode_endpoint_populated
    [of "\<lparr>data = JNull, error = Thrown ''Failed to fetch'', response = None\<rparr>"
        "\<lparr>status = 400, url = ''http://localhost:5000/items''\<rparr>"]
    errorCode_endpoint_populated
    [of "\<lparr>data = JObj [], error = Thrown ''Bad Request'',
          response = Some \<lparr>status = 400, url = ''http://localhost:5000/items''\<rparr>\<rparr>"
        "\<lparr>status = 400, url = ''http://localhost:5000/items''\<rparr>"]
  by simp

text \<open>
  C2. The specification expects the fixed fallback string as the message for status 500
  with body \<^verbatim>\<open>{}\<close>. An empty object is truthy, so the extraction passes it through its
  last operand, the raw body, and \<^verbatim>\<open>messageResponse(ctx) || '...'\<close> never reaches the
  string. What holds: for status 500 with body \<^verbatim>\<open>{}\<close> the details have type
  \<^verbatim>\<open>"serverError"\<close>, \<^verbatim>\<open>errorCode\<close> 500 and the body \<^verbatim>\<open>{}\<close> itself as message;
  the message is the fixed fallback string
  \<^verbatim>\<open>"Internal Server Error. The server unable to complete your request"\<close> when the
  body is falsy (\<^verbatim>\<open>null\<close> for a body that was not decoded).
\<close>

theorem status_500_message:
  "detailsOf (onFetchError \<lparr>data = JObj [], error = e,
      response = Some \<lparr>status = 500, url = u\<rparr>\<rparr>) =
     Some \<lparr>errorCode = Some 500, message = JObj [], type = ''serverError'',
           location = None, extra = None, raw = Some (JObj []),
           timestamp = None, endpoint = Some u\<rparr> \<and>
   (\<not> truthy d \<longrightarrow>
     detailsOf (onFetchError \<lparr>data = d, error = e,
        response = Some \<lparr>status = 500, url = u\<rparr>\<rparr>) =
       Some \<lparr>errorCode = Some 500,
             message = JStr ''Internal Server Error. The server unable to complete your request'',
             type = ''serverError'', location = None, extra = None, raw = Some d,
             timestamp = None, endpoint = Some u\<rparr>)"
proof (intro conjI impI)
  show "detailsOf (onFetchError \<lparr>data = JObj [], error = e,
      response = Some \<lparr>status = 500, url = u\<rparr>\<rparr>) =
     Some \<lparr>errorCode = Some 500, message = JObj [], type = ''serverError'',
           location = None, extra = None, raw = Some (JObj []),
           timestamp = None, endpoint = Some u\<rparr>"
    by (simp add: run_hook)
next
  assume f: "\<not> truthy d"
  let ?c = "\<lparr>data = d, error = e, response = Some \<lparr>status = 500, url = u\<rparr>\<rparr>"
  from f have "messageResponse ?c = Inr JUndefined"
    by (simp add: messageResponse_falsy)
  then show "detailsOf (onFetchError ?c) =
       Some \<lparr>errorCode = Some 500,
             message = JStr ''Internal Server Error. The server unable to complete your request'',
             type = ''serverError'', location = None, extra = None, raw = Some d,
             timestamp = None, endpoint = Some u\<rparr>"
    by (simp add: onFetchError_def classify_def messageOr_def literal_def
        js_bind_simps or_js_simps)
qed

text \<open>
  Status 500 with body \<^verbatim>\<open>{}\<close>: the message is the empty object, not the string.
\<close>

theorem status_500_empty_object_message:
  "map_option message (detailsOf (onFetchError
      \<lparr>data = JObj [], error = Thrown ''Internal Server Error'',
       response = Some \<lparr>status = 500, url = ''http://localhost:5000/items''\<rparr>\<rparr>)) =
     Some (JObj []) \<and>
   map_option message (detailsOf (onFetchError
      \<lparr>data = JObj [], error = Thrown ''Internal Server Error'',
       response = Some \<lparr>status = 500, url = ''http://localhost:5000/items''\<rparr>\<rparr>)) \<noteq>
     Some (JStr ''Internal Server Error. The server unable to complete your request'')"
  by (simp add: run_hook)

text \<open>
  The fallback string is reached with the body \<^verbatim>\<open>null\<close>.
\<close>

theorem status_500_message_witness:
  "\<not> truthy JNull \<and>
   detailsOf (onFetchError \<lparr>data = JNull, error = Thrown ''Internal Server Error'',
        response = Some \<lparr>status = 500, url = ''http://localhost:5000/items''\<rparr>\<rparr>) =
       Some \<lparr>errorCode = Some 500,
             message = JStr ''Internal Server Error. The server unable to complete your request'',
             type = ''serverError'', location = None, extra = None, raw = Some JNull,
             timestamp = None, endpoint = Some ''http://localhost:5000/items''\<rparr>"
  using status_500_message [of "Thrown ''Internal Server Error''"
      "''http://localhost:5000/items''" JNull]
  by simp

text \<open>
  C3. The specification expects \<^verbatim>\<open>"Entity Not Found"\<close> as the message for status 404
  with body \<^verbatim>\<open>{}\<close>. As for status 500, the truthy empty object is what the extraction
  returns. What holds: for status 404 with body \<^verbatim>\<open>{}\<close> the details have type
  \<^verbatim>\<open>"notFound"\<close>, \<^verbatim>\<open>errorCode\<close> 404 and the body \<^verbatim>\<open>{}\<close> itself as message; the
  message is \<^verbatim>\<open>"Entity Not Found"\<close> when the body is falsy (\<^verbatim>\<open>null\<close> for a body that
  was not decoded).
\<close>

theorem status_404_message:
  "detailsOf (onFetchError \<lparr>data = JObj [], error = e,
      response = Some \<lparr>status = 404, url = u\<rparr>\<rparr>) =
     Some \<lparr>errorCode = Some 404, message = JObj [], type = ''notFound'',
           location = Some JUndefined, extra = None, raw = Some (JObj []),
           timestamp = None, endpoint = Some u\<rparr> \<and>
   (\<not> truthy d \<longrightarrow>
     detailsOf (onFetchError \<lparr>data = d, error = e,
        response = Some \<lparr>status = 404, url = u\<rparr>\<rparr>) =
       Some \<lparr>errorCode = Some 404, message = JStr ''Entity Not Found'',
             type = ''notFound'', location = Some JUndefined, extra = None, raw = Some d,
             timestamp = None, endpoint = Some u\<rparr>)"
proof (intro conjI impI)
  show "detailsOf (onFetchError \<lparr>data = JObj [], error = e,
      response = Some \<lparr>status = 404, url = u\<rparr>\<rparr>) =
     Some \<lparr>errorCode = Some 404, message = JObj [], type = ''notFound'',
           location = Some JUndefined, extra = None, raw = Some (JObj []),
           timestamp = None, endpoint = Some u\<rparr>"
    by (simp add: run_hook)
next
  assume f: "\<not> truthy d"
  let ?c = "\<lparr>data = d, error = e, response = Some \<lparr>status = 404, url = u\<rparr>\<rparr>"
  from f have m: "messageResponse ?c = Inr JUndefined"
    by (simp add: messageResponse_falsy)
  from f have l: "opt_chain d (\<lambda>d. js_bind (js_prop d ''detail'') (\<lambda>detail.
          opt_chain detail (\<lambda>d. js_prop d ''id''))) = Inr JUndefined"
    by (cases d) (simp_all add: opt_chain_def js_bind_simps)
  from m l show "detailsOf (onFetchError ?c) =
       Some \<lparr>errorCode = Some 404, message = JStr ''Entity Not Found'',
             type = ''notFound'', location = Some JUndefined, extra = None, raw = Some d,
             timestamp = None, endpoint = Some u\<rparr>"
    by (simp add: onFetchError_def classify_def messageOr_def literal_def
        js_bind_simps or_js_simps)
qed

text \<open>
  Status 404 with body \<^verbatim>\<open>{}\<close>: the message is the empty object, not the string.
\<close>

theorem status_404_empty_object_message:
  "map_option message (detailsOf (onFetchError
      \<lparr>data = JObj [], error = Thrown ''Not Found'',
       response = Some \<lparr>status = 404, url = ''http://localhost:5000/items/7''\<rparr>\<rparr>)) =
     Some (JObj []) \<and>
   map_option message (detailsOf (onFetchError
      \<lparr>data = JObj [], error = Thrown ''Not Found'',
       response = Some \<lparr>status = 404, url = ''http://localhost:5000/items/7''\<rparr>\<rparr>)) \<noteq>
     Some (JStr ''Entity Not Found'')"
  by (simp add: run_hook)

text \<open>
  \<^verbatim>\<open>"Entity Not Found"\<close> is reached with the body \<^verbatim>\<open>null\<close>.
\<close>

theorem status_404_message_witness:
  "\<not> truthy JNull \<and>
   detailsOf (onFetchError \<lparr>data = JNull, error = Thrown ''Not Found'',
        response = Some \<lparr>status = 404, url = ''http://localhost:5000/items/7''\<rparr>\<rparr>) =
       Some \<lparr>errorCode = Some 404, message = JStr ''Entity Not Found'',
             type = ''notFound'', location = Some JUndefined, extra = None, raw = Some JNull,
             timestamp = None, endpoint = Some ''http://localhost:5000/items/7''\<rparr>"
  using status_404_message [of "Thrown ''Not Found''" "''http://localhost:5000/items/7''" JNull]
  by simp

text \<open>
  C4. When the failed request has no response object at all, the hook returns and the
  error it leaves is exactly \<^verbatim>\<open>{errorCode: 500, type: "unknown", message: "Failed to
  load response data | Unknown Error"}\<close>: no other key is set, and the rest of the
  context is untouched.
\<close>

theorem no_response_exact:
  assumes "response c = None"
  shows "onFetchError c =
    Inr (c\<lparr>error := Details
      \<lparr>errorCode = Some 500,
       message = JStr ''Failed to load response data | Unknown Error'',
       type = ''unknown'', location = None, extra = None, raw = None,
       timestamp = None, endpoint = None\<rparr>\<rparr>)"
  using assms by (simp add: onFetchError_def literal_def)

theorem no_response_exact_witness:
  "response \<lparr>data = JNull, error = Thrown ''Failed to fetch'', response = None\<rparr> = None \<and>
   onFetchError \<lparr>data = JNull, error = Thrown ''Failed to fetch'', response = None\<rparr> =
     Inr \<lparr>data = JNull,
          error = Details
            \<lparr>errorCode = Some 500,
             message = JStr ''Failed to load response data | Unknown Error'',
             type = ''unknown'', location = None, extra = None, raw = None,
             timestamp = None, endpoint = None\<rparr>,
          response = None\<rparr>"
  using no_response_exact
    [of "\<lparr>data = JNull, error = Thrown ''Failed to fetch'', response = None\<rparr>"]
  by simp

text \<open>
  C5. For status 422 with body
  \<^verbatim>\<open>{detail: [{msg: "field required", loc: ["body","name"]}]}\<close> the details are as
  the specification says: type \<^verbatim>\<open>"fastapiError"\<close>, message \<^verbatim>\<open>"field required"\<close>,
  location \<^verbatim>\<open>["body","name"]\<close>, \<^verbatim>\<open>errorCode\<close> 422. The general rule, location
  \<^verbatim>\<open>null\<close> when there is no validation-error entry, is not what the hook does for a 422
  or 400 response whose body was not decoded: \<^verbatim>\<open>ctx.data\<close> is \<^verbatim>\<open>null\<close>, the location
  is read as \<^verbatim>\<open>ctx.data.detail?.[0]?.loc\<close>, and the hook throws a TypeError instead of
  returning details. The 404 branch reads \<^verbatim>\<open>ctx.data?.detail?.id\<close> and returns on the
  same body.
\<close>

theorem fastapi_location_absent_body_throws:
  "detailsOf (onFetchError
      \<lparr>data = JObj [(''detail'', JArr [JObj [(''msg'', JStr ''field required''),
                 (''loc'', JArr [JStr ''body'', JStr ''name''])]])],
       error = e, response = Some \<lparr>status = 422, url = u\<rparr>\<rparr>) =
     Some \<lparr>errorCode = Some 422, message = JStr ''field required'', type = ''fastapiError'',
           location = Some (JArr [JStr ''body'', JStr ''name'']), extra = None,
           raw = Some (JObj [(''detail'', JArr [JObj [(''msg'', JStr ''field required''),
                 (''loc'', JArr [JStr ''body'', JStr ''name''])]])]),
           timestamp = None, endpoint = Some u\<rparr> \<and>
   onFetchError \<lparr>data = JNull, error = e, response = Some \<lparr>status = 422, url = u\<rparr>\<rparr> =
     Inl TypeError \<and>
   onFetchError \<lparr>data = JNull, error = e, response = Some \<lparr>status = 400, url = u\<rparr>\<rparr> =
     Inl TypeError \<and>
   map_option location (detailsOf (onFetchError
      \<lparr>data = JNull, error = e, response = Some \<lparr>status = 404, url = u\<rparr>\<rparr>)) =
     Some (Some JUndefined)"
  by (simp add: run_hook)

text \<open>
  C8. For the unmapped status 418 with body \<^verbatim>\<open>{msg: "teapot"}\<close> the details have type
  \<^verbatim>\<open>"others"\<close>, message \<^verbatim>\<open>"teapot"\<close> and \<^verbatim>\<open>errorCode\<close> 418. In general, for a
  body with no truthy \<^verbatim>\<open>detail\<close>, the extraction returns the body's \<^verbatim>\<open>message\<close> if
  truthy, else its \<^verbatim>\<open>msg\<close> if truthy, else the raw body (a truthy body that is not an
  object has neither key and is returned as it is); and every status outside 400, 404,
  422, 500, 502, 503 and 504 puts a truthy extracted message, with type \<^verbatim>\<open>"others"\<close>, the
  status, the body and the URL, into the details.
\<close>

theorem unmapped_status_message:
  "detailsOf (onFetchError \<lparr>data = JObj [(''msg'', JStr ''teapot'')], error = e,
      response = Some \<lparr>status = 418, url = u\<rparr>\<rparr>) =
     Some \<lparr>errorCode = Some 418, message = JStr ''teapot'', type = ''others'',
           location = None, extra = None, raw = Some (JObj [(''msg'', JStr ''teapot'')]),
           timestamp = None, endpoint = Some u\<rparr> \<and>
   (response c = Some r \<and> data c = JObj kvs \<and> \<not> truthy (own kvs ''detail'') \<longrightarrow>
      messageResponse c =
        Inr (if truthy (own kvs ''message'') then own kvs ''message''
             else if truthy (own kvs ''msg'') then own kvs ''msg''
             else JObj kvs)) \<and>
   (response c = Some r \<and> truthy (data c) \<and> \<not> isObject (data c) \<longrightarrow>
      messageResponse c = Inr (data c)) \<and>
   (response c = Some r \<and> status r \<noteq> 422 \<and> status r \<noteq> 400 \<and> status r \<noteq> 404 \<and>
    status r \<noteq> 502 \<and> status r \<noteq> 503 \<and> status r \<noteq> 504 \<and> status r \<noteq> 500 \<and>
    messageResponse c = Inr m \<and> truthy m \<longrightarrow>
      detailsOf (onFetchError c) =
        Some \<lparr>errorCode = Some (status r), message = m, type = ''others'',
              location = None, extra = None, raw = Some (data c),
              timestamp = None, endpoint = Some (url r)\<rparr>)"
proof (intro conjI impI)
  show "detailsOf (onFetchError \<lparr>data = JObj [(''msg'', JStr ''teapot'')], error = e,
      response = Some \<lparr>status = 418, url = u\<rparr>\<rparr>) =
     Some \<lparr>errorCode = Some 418, message = JStr ''teapot'', type = ''others'',
           location = None, extra = None, raw = Some (JObj [(''msg'', JStr ''teapot'')]),
           timestamp = None, endpoint = Some u\<rparr>"
    by (simp add: run_hook)
next
  assume "response c = Some r \<and> data c = JObj kvs \<and> \<not> truthy (own kvs ''detail'')"
  then show "messageResponse c =
        Inr (if truthy (own kvs ''message'') then own kvs ''message''
             else if truthy (own kvs ''msg'') then own kvs ''msg''
             else JObj kvs)"
    using messageResponse_object_fallback by blast
next
  assume "response c = Some r \<and> truthy (data c) \<and> \<not> isObject (data c)"
  then show "messageResponse c = Inr (data c)"
    using messageResponse_plain_fallback by blast
next
  assume a: "response c = Some r \<and> status r \<noteq> 422 \<and> status r \<noteq> 400 \<and> status r \<noteq> 404 \<and>
    status r \<noteq> 502 \<and> status r \<noteq> 503 \<and> status r \<noteq> 504 \<and> status r \<noteq> 500 \<and>
    messageResponse c = Inr m \<and> truthy m"
  then have "classify c r = Inr (literal m ''others'')"
    using classify_others [of r c m] by simp
  with a show "detailsOf (onFetchError c) =
        Some \<lparr>errorCode = Some (status r), message = m, type = ''others'',
              location = None, extra = None, raw = Some (data c),
              timestamp = None, endpoint = Some (url r)\<rparr>"
    by (simp add: onFetchError_response literal_def)
qed

theorem unmapped_status_message_witness:
  "response \<lparr>data = JObj [(''msg'', JStr ''teapot'')], error = Thrown ''teapot'',
       response = Some \<lparr>status = 418, url = ''http://localhost:5000/brew''\<rparr>\<rparr> =
     Some \<lparr>status = 418, url = ''http://localhost:5000/brew''\<rparr> \<and>
   \<not> truthy (own [(''msg'', JStr ''teapot'')] ''detail'') \<and>
   messageResponse \<lparr>data = JObj [(''msg'', JStr ''teapot'')], error = Thrown ''teapot'',
       response = Some \<lparr>status = 418, url = ''http://localhost:5000/brew''\<rparr>\<rparr> =
     Inr (JStr ''teapot'') \<and>
   truthy (JStr ''teapot'') \<and>
   detailsOf (onFetchError \<lparr>data = JObj [(''msg'', JStr ''teapot'')], error = Thrown ''teapot'',
       response = Some \<lparr>status = 418, url = ''http://localhost:5000/brew''\<rparr>\<rparr>) =
     Some \<lparr>errorCode = Some 418, message = JStr ''teapot'', type = ''others'',
           location = None, extra = None, raw = Some (JObj [(''msg'', JStr ''teapot'')]),
           timestamp = None, endpoint = Some ''http://localhost:5000/brew''\<rparr> \<and>
   truthy (JStr ''short and stout'') \<and> \<not> isObject (JStr ''short and stout'') \<and>
   messageResponse \<lparr>data = JStr ''short and stout'', error = Thrown ''teapot'',
       response = Some \<lparr>status = 418, url = ''http://localhost:5000/brew''\<rparr>\<rparr> =
     Inr (JStr ''short and stout'')"
  using unmapped_status_message
    [where c = "\<lparr>data = JObj [(''msg'', JStr ''teapot'')], error = Thrown ''teapot'',
       response = Some \<lparr>status = 418, url = ''http://localhost:5000/brew''\<rparr>\<rparr>"
     and r = "\<lparr>status = 418, url = ''http://localhost:5000/brew''\<rparr>"
     and kvs = "[(''msg'', JStr ''teapot'')]" and m = "JStr ''teapot''"]
    unmapped_status_message
    [where c = "\<lparr>data = JStr ''short and stout'', error = Thrown ''teapot'',
       response = Some \<lparr>status = 418, url = ''http://localhost:5000/brew''\<rparr>\<rparr>"
     and r = "\<lparr>status = 418, url = ''http://localhost:5000/brew''\<rparr>"]
  by (simp add: own_def)

text \<open>
  C10. The specification's reading is that a 400 or 422 response with an absent body, or
  with a body whose \<^verbatim>\<open>detail\<close>, \<^verbatim>\<open>message\<close> and \<^verbatim>\<open>msg\<close> are all absent or falsy,
  gets the message \<^verbatim>\<open>undefined\<close>. For such an object body the extraction returns the
  body itself. What holds, for a 400 or 422 response whose body is not \<^verbatim>\<open>null\<close> or
  \<^verbatim>\<open>undefined\<close>: the message is what the extraction returned, with no fallback string;
  it is \<^verbatim>\<open>undefined\<close> exactly when the body is falsy (\<^verbatim>\<open>false\<close>, \<^verbatim>\<open>0\<close>, the empty
  string); for an object body whose \<^verbatim>\<open>detail\<close>, \<^verbatim>\<open>message\<close> and \<^verbatim>\<open>msg\<close> are all absent
  or falsy it is the body itself. The branch for 400 and 422 is the only one without a
  fallback string: with any other status the message of the details is truthy.
\<close>

theorem fastapi_message_no_fallback:
  "(response c = Some r \<and> (status r = 422 \<or> status r = 400) \<and> \<not> nullish (data c) \<longrightarrow>
      (\<exists>m. messageResponse c = Inr m \<and>
           map_option message (detailsOf (onFetchError c)) = Some m \<and>
           (m = JUndefined) = (\<not> truthy (data c)))) \<and>
   (response c = Some r \<and> (status r = 422 \<or> status r = 400) \<and> data c = JObj kvs \<and>
    \<not> truthy (own kvs ''detail'') \<and> \<not> truthy (own kvs ''message'') \<and>
    \<not> truthy (own kvs ''msg'') \<longrightarrow>
      map_option message (detailsOf (onFetchError c)) = Some (JObj kvs)) \<and>
   (response c = Some r \<and> status r \<noteq> 422 \<and> status r \<noteq> 400 \<longrightarrow>
      (\<exists>d. detailsOf (onFetchError c) = Some d \<and> truthy (message d)))"
proof (intro conjI impI)
  assume a: "response c = Some r \<and> (status r = 422 \<or> status r = 400) \<and> \<not> nullish (data c)"
  then obtain m l where m: "messageResponse c = Inr m"
    and cl: "classify c r = Inr ((literal m ''fastapiError'')\<lparr>location := Some l\<rparr>)"
    using classify_fastapi [of r c] by blast
  from a cl have d: "map_option message (detailsOf (onFetchError c)) = Some m"
    by (simp add: onFetchError_response literal_def)
  have "(m = JUndefined) = (\<not> truthy (data c))"
  proof (cases "truthy (data c)")
    case True
    with a obtain m' where "messageResponse c = Inr m'" "truthy m'"
      using messageResponse_truthy [of c r] by blast
    with m True show ?thesis by auto
  next
    case False
    with m show ?thesis by (simp add: messageResponse_falsy)
  qed
  with m d show "\<exists>m. messageResponse c = Inr m \<and>
           map_option message (detailsOf (onFetchError c)) = Some m \<and>
           (m = JUndefined) = (\<not> truthy (data c))"
    by blast
next
  assume a: "response c = Some r \<and> (status r = 422 \<or> status r = 400) \<and> data c = JObj kvs \<and>
    \<not> truthy (own kvs ''detail'') \<and> \<not> truthy (own kvs ''message'') \<and>
    \<not> truthy (own kvs ''msg'')"
  then have m: "messageResponse c = Inr (JObj kvs)"
    using messageResponse_object_fallback [of c r kvs] by simp
  from a have "\<not> nullish (data c)" by simp
  with a obtain m' l where "messageResponse c = Inr m'"
    and cl: "classify c r = Inr ((literal m' ''fastapiError'')\<lparr>location := Some l\<rparr>)"
    using classify_fastapi [of r c] by blast
  with m have "classify c r = Inr ((literal (JObj kvs) ''fastapiError'')\<lparr>location := Some l\<rparr>)"
    by simp
  with a show "map_option message (detailsOf (onFetchError c)) = Some (JObj kvs)"
    by (simp add: onFetchError_response literal_def)
next
  assume a: "response c = Some r \<and> status r \<noteq> 422 \<and> status r \<noteq> 400"
  then obtain d where d: "classify c r = Inr d" "truthy (message d)"
    using classify_other [of r c] by blast
  with a show "\<exists>d. detailsOf (onFetchError c) = Some d \<and> truthy (message d)"
    by (simp add: onFetchError_response)
qed

text \<open>
  Status 400 with body \<^verbatim>\<open>{}\<close>: the message is the empty object. Status 400 with the
  body \<^verbatim>\<open>null\<close>: the hook throws, and there are no details to carry a message.
\<close>

theorem fastapi_empty_object_message:
  "map_option message (detailsOf (onFetchError
      \<lparr>data = JObj [], error = Thrown ''Bad Request'',
       response = Some \<lparr>status = 400, url = ''http://localhost:5000/items''\<rparr>\<rparr>)) =
     Some (JObj []) \<and>
   JObj [] \<noteq> JUndefined \<and>
   onFetchError
      \<lparr>data = JNull, error = Thrown ''Bad Request'',
       response = Some \<lparr>status = 400, url = ''http://localhost:5000/items''\<rparr>\<rparr> =
     Inl TypeError"
  by (simp add: run_hook)

text \<open>
  The three parts at concrete contexts: body \<^verbatim>\<open>false\<close> with status 400, body
  \<^verbatim>\<open>{msg: ""}\<close> with status 422, body \<^verbatim>\<open>false\<close> with status 502.
\<close>

theorem fastapi_message_no_fallback_witness:
  "response \<lparr>data = JBool False, error = Thrown ''Bad Request'',
       response = Some \<lparr>status = 400, url = ''http://localhost:5000/items''\<rparr>\<rparr> =
     Some \<lparr>status = 400, url = ''http://localhost:5000/items''\<rparr> \<and>
   \<not> nullish (JBool False) \<and> \<not> truthy (JBool False) \<and>
   map_option message (detailsOf (onFetchError
      \<lparr>data = JBool False, error = Thrown ''Bad Request'',
       response = Some \<lparr>status = 400, url = ''http://localhost:5000/items''\<rparr>\<rparr>)) =
     Some JUndefined \<and>
   \<not> truthy (own [(''msg'', JStr [])] ''detail'') \<and>
   \<not> truthy (own [(''msg'', JStr [])] ''message'') \<and>
   \<not> truthy (own [(''msg'', JStr [])] ''msg'') \<and>
   map_option message (detailsOf (onFetchError
      \<lparr>data = JObj [(''msg'', JStr [])], error = Thrown ''Unprocessable Entity'',
       response = Some \<lparr>status = 422, url = ''http://localhost:5000/items''\<rparr>\<rparr>)) =
     Some (JObj [(''msg'', JStr [])]) \<and>
   map_option message (detailsOf (onFetchError
      \<lparr>data = JBool False, error = Thrown ''Bad Gateway'',
       response = Some \<lparr>status = 502, url = ''http://localhost:5000/items''\<rparr>\<rparr>)) =
     Some (JStr ''Bad Gateway'')"
  using fastapi_message_no_fallback
    [where c = "\<lparr>data = JBool False, error = Thrown ''Bad Request'',
       response = Some \<lparr>status = 400, url = ''http://localhost:5000/items''\<rparr>\<rparr>"
     and r = "\<lparr>status = 400, url = ''http://localhost:5000/items''\<rparr>"]
    fastapi_message_no_fallback
    [where c = "\<lparr>data = JObj [(''msg'', JStr [])], error = Thrown ''Unprocessable Entity'',
       response = Some \<lparr>status = 422, url = ''http://localhost:5000/items''\<rparr>\<rparr>"
     and r = "\<lparr>status = 422, url = ''http://localhost:5000/items''\<rparr>"
     and kvs = "[(''msg'', JStr [])]"]
    fastapi_message_no_fallback
    [where c = "\<lparr>data = JBool False, error = Thrown ''Bad Gateway'',
       response = Some \<lparr>status = 502, url = ''http://localhost:5000/items''\<rparr>\<rparr>"
     and r = "\<lparr>status = 502, url = ''http://localhost:5000/items''\<rparr>"]
  by (simp add: run_hook)

section \<open>Properties of the pre-request hook\<close>

text \<open>
  C6. When the mode is anything other than \<^verbatim>\<open>development\<close>, the pre-request hook
  returns the options it was given, so it adds no \<^verbatim>\<open>X-Gitlab-Token\<close> and no
  \<^verbatim>\<open>Authorization\<close> header, whatever the two tokens are: set, empty or unset, in any
  combination.
\<close>

theorem beforeFetch_outside_development:
  assumes "MODE e \<noteq> ''development''"
  shows "beforeFetch (e\<lparr>VITE_BASF_GITLAB_TOKEN := g,
                        VITE_BASF_FEDERATION_ACCESS_TOKEN := f\<rparr>) opts = opts"
  using assms by (simp add: beforeFetch_def)

theorem beforeFetch_outside_development_witness:
  "MODE \<lparr>MODE = ''production'', VITE_BASF_GITLAB_TOKEN = None,
         VITE_BASF_FEDERATION_ACCESS_TOKEN = None\<rparr> \<noteq> ''development'' \<and>
   beforeFetch \<lparr>MODE = ''production'', VITE_BASF_GITLAB_TOKEN = Some ''glpat-1'',
                VITE_BASF_FEDERATION_ACCESS_TOKEN = Some ''fed-2''\<rparr>
     \<lparr>headers = Some [''Content-Type'' \<mapsto> ''application/json'']\<rparr> =
     \<lparr>headers = Some [''Content-Type'' \<mapsto> ''application/json'']\<rparr>"
  using beforeFetch_outside_development
    [where e = "\<lparr>MODE = ''production'', VITE_BASF_GITLAB_TOKEN = None,
          VITE_BASF_FEDERATION_ACCESS_TOKEN = None\<rparr>"
       and g = "Some ''glpat-1''" and f = "Some ''fed-2''"
       and opts = "\<lparr>headers = Some [''Content-Type'' \<mapsto> ''application/json'']\<rparr>"]
  by simp

text \<open>
  In development mode both headers are added when both tokens are set.
\<close>

lemma beforeFetch_development:
  "beforeFetch \<lparr>MODE = ''development'', VITE_BASF_GITLAB_TOKEN = Some ''glpat-1'',
                VITE_BASF_FEDERATION_ACCESS_TOKEN = Some ''fed-2''\<rparr>
     \<lparr>headers = Some [''Content-Type'' \<mapsto> ''application/json'']\<rparr> =
     \<lparr>headers = Some [''Content-Type'' \<mapsto> ''application/json'',
                       ''X-Gitlab-Token'' \<mapsto> ''glpat-1'',
                       ''Authorization'' \<mapsto> ''Bearer fed-2'']\<rparr>"
  by (simp add: beforeFetch_def addHeader_def assign_def)

section \<open>Properties of the GET helper\<close>

text \<open>
  C7. The specification has every non-object query passed through as it is unless it is
  absent, and nothing appended whenever the query string is empty. The helper decides
  both by truthiness. What holds, for every URL and query: an object query is serialized
  and appended after a \<^verbatim>\<open>?\<close>, or nothing is appended when the serialization is the
  empty string; a string query is appended after a \<^verbatim>\<open>?\<close>, or nothing is appended when
  it is empty; any other truthy query is appended after a \<^verbatim>\<open>?\<close> as the template
  literal renders it, even when that rendering is empty; and any falsy query
  (\<^verbatim>\<open>undefined\<close>, \<^verbatim>\<open>null\<close>, \<^verbatim>\<open>false\<close>, \<^verbatim>\<open>0\<close>, the empty string) appends nothing.
\<close>

theorem useGet_url_cases:
  "useGet_url sq u (JObj kvs) = (if sq kvs = [] then u else u @ ''?'' @ sq kvs) \<and>
   useGet_url sq u (JStr s) = (if s = [] then u else u @ ''?'' @ s) \<and>
   (\<not> isObject q \<and> truthy q \<longrightarrow> useGet_url sq u q = u @ ''?'' @ toStr q) \<and>
   (\<not> isObject q \<and> \<not> truthy q \<longrightarrow> useGet_url sq u q = u)"
proof (intro conjI impI)
  show "useGet_url sq u (JObj kvs) = (if sq kvs = [] then u else u @ ''?'' @ sq kvs)"
    by (simp add: useGet_url_def)
  show "useGet_url sq u (JStr s) = (if s = [] then u else u @ ''?'' @ s)"
    by (simp add: useGet_url_def)
next
  assume "\<not> isObject q \<and> truthy q"
  then show "useGet_url sq u q = u @ ''?'' @ toStr q"
    by (cases q) (simp_all add: useGet_url_def)
next
  assume "\<not> isObject q \<and> \<not> truthy q"
  then show "useGet_url sq u q = u"
    by (cases q) (simp_all add: useGet_url_def)
qed

text \<open>
  The empty array is truthy and renders as the empty string: a bare \<^verbatim>\<open>?\<close> is
  appended. The number 0 is present and not an object, yet nothing is appended.
\<close>

theorem useGet_empty_array_and_zero:
  "useGet_url plainQuery ''/items'' (JArr []) = ''/items?'' \<and>
   toStr (JArr []) = [] \<and>
   useGet_url plainQuery ''/items'' (JNum 0) = ''/items'' \<and>
   toStr (JNum 0) = ''0''"
  by (simp add: useGet_url_def)

text \<open>
  The query \<^verbatim>\<open>{a: 1, b: "x"}\<close>, the empty object, a string query and an omitted
  query.
\<close>

theorem useGet_url_cases_witness:
  "useGet_url plainQuery ''/items'' (JObj [(''a'', JNum 1), (''b'', JStr ''x'')]) =
     ''/items?a=1&b=x'' \<and>
   useGet_url plainQuery ''/items'' (JObj []) = ''/items'' \<and>
   \<not> isObject (JStr ''page=2'') \<and> truthy (JStr ''page=2'') \<and>
   useGet_url plainQuery ''/items'' (JStr ''page=2'') = ''/items?page=2'' \<and>
   \<not> isObject JUndefined \<and> \<not> truthy JUndefined \<and>
   useGet_url plainQuery ''/items'' JUndefined = ''/items''"
  using useGet_url_cases [of plainQuery "''/items''" "[(''a'', JNum 1), (''b'', JStr ''x'')]"
      "''page=2''" "JStr ''page=2''"]
    useGet_url_cases [of plainQuery "''/items''" "[]" "[]" JUndefined]
  by simp

section \<open>Properties of the toggleable text\<close>

text \<open>
  C9. For every string \<open>v\<close>, \<^verbatim>\<open>edit(v)\<close> followed by \<^verbatim>\<open>reset()\<close> leaves the text
  equal to the default \<^verbatim>\<open>"N3EG"\<close>, whatever the text was before; \<^verbatim>\<open>edit(v)\<close> sets the
  text to \<open>v\<close> unconditionally; and the text starts as \<^verbatim>\<open>"N3EG"\<close>.
\<close>

theorem edit_then_reset_default:
  "text_value (reset (edit v s)) = ''N3EG'' \<and>
   text_value (edit v s) = v \<and>
   text_value useN3EG = ''N3EG''"
  by (simp add: reset_def edit_def useN3EG_def)

end
